theory Spec2Isabelle
  imports Main
begin

section \<open>JavaScript values read by the backend\<close>

text \<open>
  \<^verbatim>\<open>process.env\<close> maps a variable name to a string, or to \<^verbatim>\<open>undefined\<close> when the
  variable is unset. The names are the seventeen variables that \<^verbatim>\<open>config.ts\<close> reads.
  A value of TypeScript type \<^verbatim>\<open>string | undefined\<close> is a
  \<open>string option\<close>, \<open>None\<close> standing for \<^verbatim>\<open>undefined\<close>.
\<close>

datatype var =
    REACT_APP_AZDO_ORG
  | REACT_APP_AZDO_PROJECT
  | REACT_APP_AZDO_ACCESS_TOKEN
  | REACT_APP_AZDO_MANIFEST_REPO
  | REACT_APP_GITHUB_TOKEN
  | REACT_APP_GITHUB_MANIFEST_REPO
  | REACT_APP_GITHUB_HLD_REPO
  | REACT_APP_GITHUB_SOURCE_REPO
  | REACT_APP_GITLAB_TOKEN
  | REACT_APP_GITLAB_SOURCE_PROJECT_ID
  | REACT_APP_GITLAB_HLD_PROJECT_ID
  | REACT_APP_GITLAB_MANIFEST_PROJECT_ID
  | REACT_APP_STORAGE_ACCESS_KEY
  | REACT_APP_STORAGE_ACCOUNT_NAME
  | REACT_APP_STORAGE_PARTITION_KEY
  | REACT_APP_STORAGE_TABLE_NAME
  | REACT_APP_CACHE_REFRESH_INTERVAL_IN_SEC

type_synonym env = "var \<Rightarrow> string option"

text \<open>
  A condition such as \<^verbatim>\<open>if (process.env.X)\<close> tests JavaScript truthiness: a string is
  truthy when it is defined and not the empty string.
\<close>

fun truthy :: "string option \<Rightarrow> bool" where
  "truthy None = False"
| "truthy (Some s) = (s \<noteq> [])"

text \<open>\<^verbatim>\<open>a || "literal"\<close> on a \<^verbatim>\<open>string | undefined\<close> operand.\<close>

fun or_string :: "string option \<Rightarrow> string \<Rightarrow> string" where
  "or_string None d = d"
| "or_string (Some s) d = (if s = [] then d else s)"

text \<open>\<^verbatim>\<open>a || b\<close> on two \<^verbatim>\<open>string | undefined\<close> operands.\<close>

definition js_or :: "string option \<Rightarrow> string option \<Rightarrow> string option" where
  "js_or a b = (if truthy a then a else b)"

section \<open>config.ts: the data model\<close>

text \<open>
  The two numeric enums. \<^verbatim>\<open>AZDO = 0\<close> in both, so the initial value \<^verbatim>\<open>0\<close> of
  \<^verbatim>\<open>pipelineType\<close> and \<^verbatim>\<open>repoType\<close> is the \<^verbatim>\<open>AZDO\<close> member.
\<close>

datatype RepositoryType = RepositoryType_AZDO | RepositoryType_GITHUB | RepositoryType_GITLAB

datatype PipelineType = PipelineType_AZDO | PipelineType_GITHUB_ACTIONS | PipelineType_GITLAB

text \<open>
  The union \<^verbatim>\<open>IAzDOPipelineConfig | IGithubActionsConfig | IGitlabPipelineConfig\<close>: one
  constructor per object shape, the arguments being the properties the object literal
  stores, in the order of the interface declaration. Every property holds what
  \<^verbatim>\<open>process.env\<close> returned, so it is a \<open>string option\<close>.
\<close>

datatype pipeline_config =
    IAzDOPipelineConfig "string option" "string option" "string option"
      \<comment> \<open>org, project, accessToken\<close>
  | IGithubActionsConfig "string option"
      \<comment> \<open>accessToken\<close>
  | IGitlabPipelineConfig "string option"
      \<comment> \<open>accessToken\<close>

datatype repo_config =
    IAzDORepoConfig "string option" "string option"
      \<comment> \<open>accessToken, manifestRepo\<close>
  | IGithubRepoConfig "string option" "string option" "string option" "string option"
      \<comment> \<open>accessToken, sourceRepo, hldRepo, manifestRepo\<close>
  | IGitlabRepoConfig "string option" "string option" "string option" "string option"
      \<comment> \<open>accessToken, sourceRepoProjectId, hldRepoProjectId, manifestProjectId\<close>

text \<open>
  Property reads through an unchecked cast, e.g.
  \<^verbatim>\<open>(config.pipelineConfig as IAzDOPipelineConfig).org\<close>. The cast does nothing at run
  time: the read returns the property when the object has it and \<^verbatim>\<open>undefined\<close> when
  it has not.
\<close>

fun pipeline_org :: "pipeline_config \<Rightarrow> string option" where
  "pipeline_org (IAzDOPipelineConfig org project accessToken) = org"
| "pipeline_org (IGithubActionsConfig accessToken) = None"
| "pipeline_org (IGitlabPipelineConfig accessToken) = None"

fun pipeline_project :: "pipeline_config \<Rightarrow> string option" where
  "pipeline_project (IAzDOPipelineConfig org project accessToken) = project"
| "pipeline_project (IGithubActionsConfig accessToken) = None"
| "pipeline_project (IGitlabPipelineConfig accessToken) = None"

fun pipeline_accessToken :: "pipeline_config \<Rightarrow> string option" where
  "pipeline_accessToken (IAzDOPipelineConfig org project accessToken) = accessToken"
| "pipeline_accessToken (IGithubActionsConfig accessToken) = accessToken"
| "pipeline_accessToken (IGitlabPipelineConfig accessToken) = accessToken"

fun repo_accessToken :: "repo_config \<Rightarrow> string option" where
  "repo_accessToken (IAzDORepoConfig accessToken manifestRepo) = accessToken"
| "repo_accessToken (IGithubRepoConfig accessToken sourceRepo hldRepo manifestRepo) = accessToken"
| "repo_accessToken (IGitlabRepoConfig accessToken sourceId hldId manifestId) = accessToken"

fun repo_manifestRepo :: "repo_config \<Rightarrow> string option" where
  "repo_manifestRepo (IAzDORepoConfig accessToken manifestRepo) = manifestRepo"
| "repo_manifestRepo (IGithubRepoConfig accessToken sourceRepo hldRepo manifestRepo) = manifestRepo"
| "repo_manifestRepo (IGitlabRepoConfig accessToken sourceId hldId manifestId) = None"

fun repo_sourceRepo :: "repo_config \<Rightarrow> string option" where
  "repo_sourceRepo (IAzDORepoConfig accessToken manifestRepo) = None"
| "repo_sourceRepo (IGithubRepoConfig accessToken sourceRepo hldRepo manifestRepo) = sourceRepo"
| "repo_sourceRepo (IGitlabRepoConfig accessToken sourceId hldId manifestId) = None"

fun repo_hldRepo :: "repo_config \<Rightarrow> string option" where
  "repo_hldRepo (IAzDORepoConfig accessToken manifestRepo) = None"
| "repo_hldRepo (IGithubRepoConfig accessToken sourceRepo hldRepo manifestRepo) = hldRepo"
| "repo_hldRepo (IGitlabRepoConfig accessToken sourceId hldId manifestId) = None"

fun repo_sourceRepoProjectId :: "repo_config \<Rightarrow> string option" where
  "repo_sourceRepoProjectId (IAzDORepoConfig accessToken manifestRepo) = None"
| "repo_sourceRepoProjectId (IGithubRepoConfig accessToken sourceRepo hldRepo manifestRepo) = None"
| "repo_sourceRepoProjectId (IGitlabRepoConfig accessToken sourceId hldId manifestId) = sourceId"

fun repo_hldRepoProjectId :: "repo_config \<Rightarrow> string option" where
  "repo_hldRepoProjectId (IAzDORepoConfig accessToken manifestRepo) = None"
| "repo_hldRepoProjectId (IGithubRepoConfig accessToken sourceRepo hldRepo manifestRepo) = None"
| "repo_hldRepoProjectId (IGitlabRepoConfig accessToken sourceId hldId manifestId) = hldId"

fun repo_manifestProjectId :: "repo_config \<Rightarrow> string option" where
  "repo_manifestProjectId (IAzDORepoConfig accessToken manifestRepo) = None"
| "repo_manifestProjectId (IGithubRepoConfig accessToken sourceRepo hldRepo manifestRepo) = None"
| "repo_manifestProjectId (IGitlabRepoConfig accessToken sourceId hldId manifestId) = manifestId"

record IConfig =
  pipelineConfig :: pipeline_config
  repoConfig :: repo_config
  storageAccessKey :: string
  storageAccountName :: string
  storageTableName :: string
  storagePartitionKey :: string
  dockerVersion :: "string option"
  repoType :: RepositoryType
  pipelineType :: PipelineType

text \<open>A thrown \<^verbatim>\<open>Error(message)\<close>.\<close>

datatype error = Error string

section \<open>config.ts: resolving the configuration\<close>

text \<open>
  \<^verbatim>\<open>getPipelineConfig\<close> (lines 62 to 95) returns the object
  \<^verbatim>\<open>{ pipelineType, pipelineConfig }\<close>, here a pair; \<^verbatim>\<open>pipelineConfig\<close> stays
  \<^verbatim>\<open>undefined\<close> when no branch is taken.
\<close>

definition getPipelineConfig :: "env \<Rightarrow> PipelineType \<times> pipeline_config option" where
  "getPipelineConfig env =
     (if truthy (env REACT_APP_AZDO_ORG) \<and> truthy (env REACT_APP_AZDO_PROJECT) then
        (PipelineType_AZDO,
         Some (IAzDOPipelineConfig
                 (env REACT_APP_AZDO_ORG)
                 (env REACT_APP_AZDO_PROJECT)
                 (env REACT_APP_AZDO_ACCESS_TOKEN)))
      else if truthy (env REACT_APP_GITHUB_TOKEN) then
        (PipelineType_GITHUB_ACTIONS,
         Some (IGithubActionsConfig (env REACT_APP_GITHUB_TOKEN)))
      else if truthy (env REACT_APP_GITLAB_TOKEN) then
        (PipelineType_GITLAB,
         Some (IGitlabPipelineConfig (env REACT_APP_GITLAB_TOKEN)))
      else (PipelineType_AZDO, None))"

text \<open>\<^verbatim>\<open>getReposConfig\<close> (lines 97 to 144), returning \<^verbatim>\<open>{ repoType, reposConfig }\<close>.\<close>

definition getReposConfig :: "env \<Rightarrow> RepositoryType \<times> repo_config option" where
  "getReposConfig env =
     (if truthy (env REACT_APP_AZDO_MANIFEST_REPO) then
        (RepositoryType_AZDO,
         Some (IAzDORepoConfig
                 (env REACT_APP_AZDO_ACCESS_TOKEN)
                 (env REACT_APP_AZDO_MANIFEST_REPO)))
      else if truthy (env REACT_APP_GITHUB_MANIFEST_REPO)
            \<and> truthy (env REACT_APP_GITHUB_HLD_REPO)
            \<and> truthy (env REACT_APP_GITHUB_SOURCE_REPO) then
        (RepositoryType_GITHUB,
         Some (IGithubRepoConfig
                 (env REACT_APP_GITHUB_TOKEN)
                 (env REACT_APP_GITHUB_SOURCE_REPO)
                 (env REACT_APP_GITHUB_HLD_REPO)
                 (env REACT_APP_GITHUB_MANIFEST_REPO)))
      else if truthy (env REACT_APP_GITLAB_SOURCE_PROJECT_ID)
            \<and> truthy (env REACT_APP_GITLAB_HLD_PROJECT_ID)
            \<and> truthy (env REACT_APP_GITLAB_MANIFEST_PROJECT_ID)
            \<and> truthy (env REACT_APP_GITLAB_TOKEN) then
        (RepositoryType_GITLAB,
         Some (IGitlabRepoConfig
                 (env REACT_APP_GITLAB_TOKEN)
                 (env REACT_APP_GITLAB_SOURCE_PROJECT_ID)
                 (env REACT_APP_GITLAB_HLD_PROJECT_ID)
                 (env REACT_APP_GITLAB_MANIFEST_PROJECT_ID)))
      else (RepositoryType_AZDO, None))"

text \<open>
  \<^verbatim>\<open>getConfig\<close> (lines 146 to 163). An object is truthy whenever it is defined, so
  \<^verbatim>\<open>pipelineConfig && reposConfig\<close> holds when both are \<open>Some\<close>. \<^verbatim>\<open>dockerVersion\<close> is
  not in the object literal and reads as \<^verbatim>\<open>undefined\<close>.
\<close>

definition getConfig :: "env \<Rightarrow> error + IConfig" where
  "getConfig env =
     (case getPipelineConfig env of (pType, pConfig) \<Rightarrow>
      case getReposConfig env of (rType, rConfig) \<Rightarrow>
      (case (pConfig, rConfig) of
         (Some pc, Some rc) \<Rightarrow>
           Inr \<lparr> pipelineConfig = pc,
                 repoConfig = rc,
                 storageAccessKey = or_string (env REACT_APP_STORAGE_ACCESS_KEY) [],
                 storageAccountName = or_string (env REACT_APP_STORAGE_ACCOUNT_NAME) [],
                 storageTableName = or_string (env REACT_APP_STORAGE_TABLE_NAME) [],
                 storagePartitionKey = or_string (env REACT_APP_STORAGE_PARTITION_KEY) [],
                 dockerVersion = None,
                 repoType = rType,
                 pipelineType = pType \<rparr>
       | _ \<Rightarrow> Inl (Error ''Pipeline and/or repository could not be recognized.'')))"

text \<open>Sequencing of calls that may throw: the first error propagates.\<close>

fun bind_error :: "error + 'a \<Rightarrow> ('a \<Rightarrow> error + 'b) \<Rightarrow> error + 'b" where
  "bind_error (Inl e) f = Inl e"
| "bind_error (Inr x) f = f x"

text \<open>
  The validity predicates (lines 174 to 201). Each calls \<^verbatim>\<open>getConfig\<close> again and so
  throws when it throws.
\<close>

definition isAzdo :: "env \<Rightarrow> error + bool" where
  "isAzdo env =
     bind_error (getConfig env) (\<lambda>config.
       Inr (pipelineType config = PipelineType_AZDO
            \<and> pipeline_org (pipelineConfig config) \<noteq> None
            \<and> pipeline_project (pipelineConfig config) \<noteq> None
            \<and> repo_manifestRepo (repoConfig config) \<noteq> None))"

definition isGithubActions :: "env \<Rightarrow> error + bool" where
  "isGithubActions env =
     bind_error (getConfig env) (\<lambda>config.
       Inr (pipelineType config = PipelineType_GITHUB_ACTIONS
            \<and> repo_sourceRepo (repoConfig config) \<noteq> None
            \<and> repo_hldRepo (repoConfig config) \<noteq> None
            \<and> repo_manifestRepo (repoConfig config) \<noteq> None))"

definition isGitlab :: "env \<Rightarrow> error + bool" where
  "isGitlab env =
     bind_error (getConfig env) (\<lambda>config.
       Inr (pipelineType config = PipelineType_GITLAB
            \<and> repo_sourceRepoProjectId (repoConfig config) \<noteq> None
            \<and> repo_hldRepoProjectId (repoConfig config) \<noteq> None
            \<and> repo_manifestProjectId (repoConfig config) \<noteq> None))"

text \<open>
  \<^verbatim>\<open>isConfigValid\<close> (lines 206 to 218). \<^verbatim>\<open>||\<close> and \<^verbatim>\<open>&&\<close> short-circuit, so a later
  predicate is called only when the earlier ones returned false; \<^verbatim>\<open>!!s\<close> on a string
  is true when the string is not empty.
\<close>

definition isConfigValid :: "env \<Rightarrow> error + bool" where
  "isConfigValid env =
     bind_error (getConfig env) (\<lambda>config.
     bind_error (isAzdo env) (\<lambda>a.
     bind_error (if a then Inr True else isGithubActions env) (\<lambda>ag.
     bind_error (if ag then Inr True else isGitlab env) (\<lambda>provider.
       Inr (provider
            \<and> storageAccountName config \<noteq> []
            \<and> storageAccessKey config \<noteq> []
            \<and> storageTableName config \<noteq> []
            \<and> storagePartitionKey config \<noteq> [])))))"

section \<open>config.ts: the cache refresh interval\<close>

















section \<open>lib/author.ts: resolving the author of a deployment\<close>

text \<open>
  Modelled from the spec: the type \<^verbatim>\<open>IDeploymentData\<close> of \<^verbatim>\<open>lib/common\<close> and the build
  type of its two build fields, which are not among the sources. The spec's data model
  and the reads in \<^verbatim>\<open>get\<close> give the shape: two optional builds, each with an optional
  \<^verbatim>\<open>sourceVersion\<close> (a commit hash) and an optional \<^verbatim>\<open>repository\<close> reference, and two
  optional URL strings. The repository reference types of the library are opaque here:
  the type variable \<open>'r\<close>. A reference is an object, so it is truthy whenever defined.
\<close>

record 'r IBuild =
  sourceVersion :: "string option"
  repository :: "'r option"

record 'r IDeploymentData =
  srcToDockerBuild :: "'r IBuild option"
  hldToManifestBuild :: "'r IBuild option"
  sourceRepo :: "string option"
  hldRepo :: "string option"

text \<open>Optional chaining \<^verbatim>\<open>build?.field\<close>.\<close>

fun opt_chain :: "'b option \<Rightarrow> ('b \<Rightarrow> 'c option) \<Rightarrow> 'c option" where
  "opt_chain None f = None"
| "opt_chain (Some b) f = f b"

text \<open>\<^verbatim>\<open>a || b\<close> on two operands that are objects or \<^verbatim>\<open>undefined\<close>.\<close>

fun obj_or :: "'r option \<Rightarrow> 'r option \<Rightarrow> 'r option" where
  "obj_or (Some r) b = Some r"
| "obj_or None b = b"

text \<open>
  One URL fallback block of \<^verbatim>\<open>get\<close>,
  \<^verbatim>\<open>if (!repo && url) { repo = getRepositoryFromURL(url); commit = version; }\<close>,
  as a function of the pair \<open>(commit, repo)\<close>. The resolver \<^verbatim>\<open>getRepositoryFromURL\<close>
  belongs to the library and is a parameter; it may return \<^verbatim>\<open>undefined\<close>.
\<close>

fun url_fallback ::
  "(string \<Rightarrow> 'r option) \<Rightarrow> string option \<Rightarrow> string option
    \<Rightarrow> string option \<times> 'r option \<Rightarrow> string option \<times> 'r option" where
  "url_fallback getRepositoryFromURL (Some url) version (commit, None) =
     (if url \<noteq> [] then (version, getRepositoryFromURL url) else (commit, None))"
| "url_fallback getRepositoryFromURL url version (commit, repo) = (commit, repo)"

text \<open>Lines 18 to 32 of \<^verbatim>\<open>get\<close>: the values of \<^verbatim>\<open>commit\<close> and \<^verbatim>\<open>repo\<close> at line 34.\<close>

definition selection ::
  "(string \<Rightarrow> 'r option) \<Rightarrow> 'r IDeploymentData \<Rightarrow> string option \<times> 'r option" where
  "selection getRepositoryFromURL deployment =
     (let commit = js_or (opt_chain (srcToDockerBuild deployment) sourceVersion)
                         (opt_chain (hldToManifestBuild deployment) sourceVersion);
          repo = obj_or (opt_chain (srcToDockerBuild deployment) repository)
                        (opt_chain (hldToManifestBuild deployment) repository);
          first = url_fallback getRepositoryFromURL (sourceRepo deployment)
                    (opt_chain (srcToDockerBuild deployment) sourceVersion) (commit, repo)
      in url_fallback getRepositoryFromURL (hldRepo deployment)
           (opt_chain (hldToManifestBuild deployment) sourceVersion) first)"

text \<open>
  \<^verbatim>\<open>config.sourceRepoAccessToken\<close> and \<^verbatim>\<open>config.pipelineAccessToken\<close> (line 38). The
  object that \<^verbatim>\<open>getConfig\<close> builds has neither property (\<^verbatim>\<open>IConfig\<close>, lines 13 to 26,
  declares none, and the object literal of lines 150 to 159 sets none), so both reads
  return \<^verbatim>\<open>undefined\<close>.
\<close>

definition sourceRepoAccessToken :: "IConfig \<Rightarrow> string option" where
  "sourceRepoAccessToken config = None"

definition pipelineAccessToken :: "IConfig \<Rightarrow> string option" where
  "pipelineAccessToken config = None"

text \<open>
  What a call of \<^verbatim>\<open>get\<close> does to the outside: the call of the library's
  \<^verbatim>\<open>fetchAuthor\<close> with its three arguments, and the line written to the console.
\<close>

datatype 'r effect = FetchAuthor 'r string "string option" | ConsoleLog string

text \<open>
  \<^verbatim>\<open>get\<close> (lines 14 to 43). The result is the thrown error of \<^verbatim>\<open>getConfig\<close>, or the
  effects in order together with the returned value, where \<open>None\<close> is \<^verbatim>\<open>undefined\<close>.
  \<^verbatim>\<open>fetchAuthor\<close> is a parameter; the promise it returns is taken as its value.
\<close>

definition get ::
  "env \<Rightarrow> (string \<Rightarrow> 'r option) \<Rightarrow> ('r \<Rightarrow> string \<Rightarrow> string option \<Rightarrow> 'a option)
    \<Rightarrow> 'r IDeploymentData \<Rightarrow> error + ('r effect list \<times> 'a option)" where
  "get env getRepositoryFromURL fetchAuthor deployment =
     bind_error (getConfig env) (\<lambda>config.
       Inr (case selection getRepositoryFromURL deployment of
              (Some commit, Some repo) \<Rightarrow>
                if commit \<noteq> [] then
                  (let accessToken =
                         js_or (sourceRepoAccessToken config) (pipelineAccessToken config)
                   in ([FetchAuthor repo commit accessToken],
                       fetchAuthor repo commit accessToken))
                else ([ConsoleLog ''Repository could not be recognized''], None)
            | _ \<Rightarrow> ([ConsoleLog ''Repository could not be recognized''], None)))"

section \<open>Example environments and deployments\<close>

fun env_azdo :: env where
  "env_azdo REACT_APP_AZDO_ORG = Some ''contoso''"
| "env_azdo REACT_APP_AZDO_PROJECT = Some ''fabrikam''"
| "env_azdo REACT_APP_AZDO_MANIFEST_REPO = Some ''manifests''"
| "env_azdo REACT_APP_AZDO_ACCESS_TOKEN = Some ''azdo-token''"
| "env_azdo REACT_APP_STORAGE_ACCESS_KEY = Some ''key''"
| "env_azdo REACT_APP_STORAGE_ACCOUNT_NAME = Some ''account''"
| "env_azdo REACT_APP_STORAGE_TABLE_NAME = Some ''table''"
| "env_azdo REACT_APP_STORAGE_PARTITION_KEY = Some ''partition''"
| "env_azdo name = None"

fun env_github :: env where
  "env_github REACT_APP_GITHUB_TOKEN = Some ''gh-token''"
| "env_github REACT_APP_GITHUB_MANIFEST_REPO = Some ''gh-manifests''"
| "env_github REACT_APP_GITHUB_HLD_REPO = Some ''gh-hld''"
| "env_github REACT_APP_GITHUB_SOURCE_REPO = Some ''gh-source''"
| "env_github REACT_APP_STORAGE_ACCESS_KEY = Some ''key''"
| "env_github REACT_APP_STORAGE_ACCOUNT_NAME = Some ''account''"
| "env_github REACT_APP_STORAGE_TABLE_NAME = Some ''table''"
| "env_github REACT_APP_STORAGE_PARTITION_KEY = Some ''partition''"
| "env_github name = None"

fun env_gitlab :: env where
  "env_gitlab REACT_APP_GITLAB_TOKEN = Some ''gl-token''"
| "env_gitlab REACT_APP_GITLAB_SOURCE_PROJECT_ID = Some ''101''"
| "env_gitlab REACT_APP_GITLAB_HLD_PROJECT_ID = Some ''102''"
| "env_gitlab REACT_APP_GITLAB_MANIFEST_PROJECT_ID = Some ''103''"
| "env_gitlab REACT_APP_STORAGE_ACCESS_KEY = Some ''key''"
| "env_gitlab REACT_APP_STORAGE_ACCOUNT_NAME = Some ''account''"
| "env_gitlab REACT_APP_STORAGE_TABLE_NAME = Some ''table''"
| "env_gitlab REACT_APP_STORAGE_PARTITION_KEY = Some ''partition''"
| "env_gitlab name = None"


text \<open>Every provider's variables at once.\<close>

fun env_all :: env where
  "env_all REACT_APP_AZDO_ORG = Some ''contoso''"
| "env_all REACT_APP_AZDO_PROJECT = Some ''fabrikam''"
| "env_all REACT_APP_AZDO_MANIFEST_REPO = Some ''manifests''"
| "env_all REACT_APP_GITHUB_TOKEN = Some ''gh-token''"
| "env_all REACT_APP_GITHUB_MANIFEST_REPO = Some ''gh-manifests''"
| "env_all REACT_APP_GITHUB_HLD_REPO = Some ''gh-hld''"
| "env_all REACT_APP_GITHUB_SOURCE_REPO = Some ''gh-source''"
| "env_all REACT_APP_GITLAB_TOKEN = Some ''gl-token''"
| "env_all REACT_APP_GITLAB_SOURCE_PROJECT_ID = Some ''101''"
| "env_all REACT_APP_GITLAB_HLD_PROJECT_ID = Some ''102''"
| "env_all REACT_APP_GITLAB_MANIFEST_PROJECT_ID = Some ''103''"
| "env_all name = None"

text \<open>An Azure DevOps pipeline beside GitHub repositories.\<close>

fun env_mixed :: env where
  "env_mixed REACT_APP_AZDO_ORG = Some ''contoso''"
| "env_mixed REACT_APP_AZDO_PROJECT = Some ''fabrikam''"
| "env_mixed REACT_APP_GITHUB_MANIFEST_REPO = Some ''gh-manifests''"
| "env_mixed REACT_APP_GITHUB_HLD_REPO = Some ''gh-hld''"
| "env_mixed REACT_APP_GITHUB_SOURCE_REPO = Some ''gh-source''"
| "env_mixed name = None"

text \<open>A resolver that recognises GitHub URLs only, returning the URL as the reference.\<close>

definition github_only :: "string \<Rightarrow> string option" where
  "github_only url = (if take 19 url = ''https://github.com/'' then Some url else None)"

text \<open>An author fetch that finds nobody.\<close>

definition nobody :: "string \<Rightarrow> string \<Rightarrow> string option \<Rightarrow> string option" where
  "nobody repo commit accessToken = None"

text \<open>A deployment whose source build carries both a commit and a repository.\<close>

definition deployment_built :: "string IDeploymentData" where
  "deployment_built =
     \<lparr> srcToDockerBuild = Some \<lparr> sourceVersion = Some ''c1'', repository = Some ''repo'' \<rparr>,
       hldToManifestBuild = None,
       sourceRepo = None,
       hldRepo = None \<rparr>"

text \<open>
  A deployment without a build repository, with both URLs: a source URL of a GitHub
  repository, and the same deployment with a source URL that \<open>github_only\<close> does not
  recognise.
\<close>

definition deployment_urls :: "string IDeploymentData" where
  "deployment_urls =
     \<lparr> srcToDockerBuild = Some \<lparr> sourceVersion = Some ''c2'', repository = None \<rparr>,
       hldToManifestBuild = Some \<lparr> sourceVersion = Some ''h1'', repository = None \<rparr>,
       sourceRepo = Some ''https://github.com/team/app'',
       hldRepo = Some ''https://github.com/team/hld'' \<rparr>"

definition deployment_unknown_host :: "string IDeploymentData" where
  "deployment_unknown_host = deployment_urls \<lparr> sourceRepo := Some ''https://example.org/team/app'' \<rparr>"

text \<open>A deployment with a source URL and no source build at all.\<close>

definition deployment_no_source_build :: "string IDeploymentData" where
  "deployment_no_source_build =
     \<lparr> srcToDockerBuild = None,
       hldToManifestBuild = Some \<lparr> sourceVersion = Some ''h1'', repository = None \<rparr>,
       sourceRepo = Some ''https://github.com/team/app'',
       hldRepo = None \<rparr>"

section \<open>Pipeline and repository selection\<close>

text \<open>
  Claim C6. Pipeline selection is first match wins in the order Azure DevOps, GitHub
  Actions, GitLab. A variable counts as set when the code's test of it succeeds, that
  is when it is defined and not the empty string. For every environment: when the
  organization and the project variable are set, the Azure DevOps pipeline is selected,
  whatever the GitHub and GitLab tokens are; when they are not both set and the GitHub
  token is set, GitHub Actions is selected, whatever the GitLab token is; when neither
  holds and the GitLab token is set, GitLab is selected; otherwise the pipeline
  configuration is absent.
\<close>

theorem getPipelineConfig_first_match:
  "(truthy (env REACT_APP_AZDO_ORG) \<and> truthy (env REACT_APP_AZDO_PROJECT) \<longrightarrow>
      getPipelineConfig env =
        (PipelineType_AZDO,
         Some (IAzDOPipelineConfig (env REACT_APP_AZDO_ORG) (env REACT_APP_AZDO_PROJECT)
                 (env REACT_APP_AZDO_ACCESS_TOKEN))))
   \<and> (\<not> (truthy (env REACT_APP_AZDO_ORG) \<and> truthy (env REACT_APP_AZDO_PROJECT))
        \<and> truthy (env REACT_APP_GITHUB_TOKEN) \<longrightarrow>
      getPipelineConfig env =
        (PipelineType_GITHUB_ACTIONS, Some (IGithubActionsConfig (env REACT_APP_GITHUB_TOKEN))))
   \<and> (\<not> (truthy (env REACT_APP_AZDO_ORG) \<and> truthy (env REACT_APP_AZDO_PROJECT))
        \<and> \<not> truthy (env REACT_APP_GITHUB_TOKEN)
        \<and> truthy (env REACT_APP_GITLAB_TOKEN) \<longrightarrow>
      getPipelineConfig env =
        (PipelineType_GITLAB, Some (IGitlabPipelineConfig (env REACT_APP_GITLAB_TOKEN))))
   \<and> (\<not> (truthy (env REACT_APP_AZDO_ORG) \<and> truthy (env REACT_APP_AZDO_PROJECT))
        \<and> \<not> truthy (env REACT_APP_GITHUB_TOKEN)
        \<and> \<not> truthy (env REACT_APP_GITLAB_TOKEN) \<longrightarrow>
      snd (getPipelineConfig env) = None)"
  by (simp add: getPipelineConfig_def)

theorem getPipelineConfig_first_match_witness:
  "truthy (env_all REACT_APP_AZDO_ORG) \<and> truthy (env_all REACT_APP_AZDO_PROJECT)
   \<and> truthy (env_all REACT_APP_GITHUB_TOKEN) \<and> truthy (env_all REACT_APP_GITLAB_TOKEN)
   \<and> getPipelineConfig env_all =
       (PipelineType_AZDO, Some (IAzDOPipelineConfig (Some ''contoso'') (Some ''fabrikam'') None))
   \<and> getPipelineConfig (env_all(REACT_APP_AZDO_ORG := None)) =
       (PipelineType_GITHUB_ACTIONS, Some (IGithubActionsConfig (Some ''gh-token'')))
   \<and> getPipelineConfig (env_all(REACT_APP_AZDO_PROJECT \<mapsto> [], REACT_APP_GITHUB_TOKEN := None)) =
       (PipelineType_GITLAB, Some (IGitlabPipelineConfig (Some ''gl-token'')))
   \<and> snd (getPipelineConfig (\<lambda>name. None)) = None"
  using getPipelineConfig_first_match [of env_all]
    getPipelineConfig_first_match [of "env_all(REACT_APP_AZDO_ORG := None)"]
    getPipelineConfig_first_match
      [of "env_all(REACT_APP_AZDO_PROJECT \<mapsto> [], REACT_APP_GITHUB_TOKEN := None)"]
    getPipelineConfig_first_match [of "\<lambda>name. None"]
  by simp

text \<open>
  Claim C7. Repository selection is first match wins in the order Azure DevOps, GitHub,
  GitLab, a variable being set when it is defined and not empty. For every environment:
  when the Azure DevOps manifest repository variable is set, the Azure DevOps
  repository configuration is built from it and the optional access token, whatever the
  GitHub and GitLab variables are; when it is not set and the GitHub manifest, HLD and
  source repository variables are all set, the GitHub configuration is built; when
  neither holds and the three GitLab project ids and the GitLab token are all set, the
  GitLab configuration is built; otherwise the repository configuration is absent.
\<close>

theorem getReposConfig_first_match:
  "(truthy (env REACT_APP_AZDO_MANIFEST_REPO) \<longrightarrow>
      getReposConfig env =
        (RepositoryType_AZDO,
         Some (IAzDORepoConfig (env REACT_APP_AZDO_ACCESS_TOKEN)
                 (env REACT_APP_AZDO_MANIFEST_REPO))))
   \<and> (\<not> truthy (env REACT_APP_AZDO_MANIFEST_REPO)
        \<and> truthy (env REACT_APP_GITHUB_MANIFEST_REPO)
        \<and> truthy (env REACT_APP_GITHUB_HLD_REPO)
        \<and> truthy (env REACT_APP_GITHUB_SOURCE_REPO) \<longrightarrow>
      getReposConfig env =
        (RepositoryType_GITHUB,
         Some (IGithubRepoConfig (env REACT_APP_GITHUB_TOKEN)
                 (env REACT_APP_GITHUB_SOURCE_REPO)
                 (env REACT_APP_GITHUB_HLD_REPO)
                 (env REACT_APP_GITHUB_MANIFEST_REPO))))
   \<and> (\<not> truthy (env REACT_APP_AZDO_MANIFEST_REPO)
        \<and> \<not> (truthy (env REACT_APP_GITHUB_MANIFEST_REPO)
              \<and> truthy (env REACT_APP_GITHUB_HLD_REPO)
              \<and> truthy (env REACT_APP_GITHUB_SOURCE_REPO))
        \<and> truthy (env REACT_APP_GITLAB_SOURCE_PROJECT_ID)
        \<and> truthy (env REACT_APP_GITLAB_HLD_PROJECT_ID)
        \<and> truthy (env REACT_APP_GITLAB_MANIFEST_PROJECT_ID)
        \<and> truthy (env REACT_APP_GITLAB_TOKEN) \<longrightarrow>
      getReposConfig env =
        (RepositoryType_GITLAB,
         Some (IGitlabRepoConfig (env REACT_APP_GITLAB_TOKEN)
                 (env REACT_APP_GITLAB_SOURCE_PROJECT_ID)
                 (env REACT_APP_GITLAB_HLD_PROJECT_ID)
                 (env REACT_APP_GITLAB_MANIFEST_PROJECT_ID))))
   \<and> (\<not> truthy (env REACT_APP_AZDO_MANIFEST_REPO)
        \<and> \<not> (truthy (env REACT_APP_GITHUB_MANIFEST_REPO)
              \<and> truthy (env REACT_APP_GITHUB_HLD_REPO)
              \<and> truthy (env REACT_APP_GITHUB_SOURCE_REPO))
        \<and> \<not> (truthy (env REACT_APP_GITLAB_SOURCE_PROJECT_ID)
              \<and> truthy (env REACT_APP_GITLAB_HLD_PROJECT_ID)
              \<and> truthy (env REACT_APP_GITLAB_MANIFEST_PROJECT_ID)
              \<and> truthy (env REACT_APP_GITLAB_TOKEN)) \<longrightarrow>
      snd (getReposConfig env) = None)"
  by (simp add: getReposConfig_def)

theorem getReposConfig_first_match_witness:
  "truthy (env_all REACT_APP_AZDO_MANIFEST_REPO)
   \<and> getReposConfig env_all =
       (RepositoryType_AZDO, Some (IAzDORepoConfig None (Some ''manifests'')))
   \<and> getReposConfig (env_all(REACT_APP_AZDO_MANIFEST_REPO := None)) =
       (RepositoryType_GITHUB,
        Some (IGithubRepoConfig (Some ''gh-token'') (Some ''gh-source'') (Some ''gh-hld'')
                (Some ''gh-manifests'')))
   \<and> getReposConfig
       (env_all(REACT_APP_AZDO_MANIFEST_REPO := None, REACT_APP_GITHUB_HLD_REPO := None)) =
       (RepositoryType_GITLAB,
        Some (IGitlabRepoConfig (Some ''gl-token'') (Some ''101'') (Some ''102'') (Some ''103'')))
   \<and> snd (getReposConfig (env_github(REACT_APP_GITHUB_SOURCE_REPO \<mapsto> []))) = None"
  using getReposConfig_first_match [of env_all]
    getReposConfig_first_match [of "env_all(REACT_APP_AZDO_MANIFEST_REPO := None)"]
    getReposConfig_first_match
      [of "env_all(REACT_APP_AZDO_MANIFEST_REPO := None, REACT_APP_GITHUB_HLD_REPO := None)"]
    getReposConfig_first_match [of "env_github(REACT_APP_GITHUB_SOURCE_REPO \<mapsto> [])"]
  by simp

section \<open>Building the configuration\<close>

text \<open>
  Claim C3. \<^verbatim>\<open>getConfig\<close> returns a configuration exactly when both the pipeline
  resolution and the repository resolution produce one, and then it holds those two;
  when either is absent it throws the error with the message
  ``Pipeline and/or repository could not be recognized.'' and builds no configuration.
\<close>

theorem getConfig_iff_both_resolved:
  "((\<exists>config. getConfig env = Inr config) \<longleftrightarrow>
      (snd (getPipelineConfig env) \<noteq> None \<and> snd (getReposConfig env) \<noteq> None))
   \<and> (\<forall>pc rc. snd (getPipelineConfig env) = Some pc \<and> snd (getReposConfig env) = Some rc \<longrightarrow>
        (\<exists>config. getConfig env = Inr config
           \<and> pipelineConfig config = pc \<and> repoConfig config = rc))
   \<and> (snd (getPipelineConfig env) = None \<or> snd (getReposConfig env) = None \<longrightarrow>
        getConfig env = Inl (Error ''Pipeline and/or repository could not be recognized.''))"
  by (simp add: getConfig_def split: prod.splits option.splits)

lemma getPipelineConfig_env_azdo:
  "getPipelineConfig env_azdo =
     (PipelineType_AZDO,
      Some (IAzDOPipelineConfig (Some ''contoso'') (Some ''fabrikam'') (Some ''azdo-token'')))"
  by (simp add: getPipelineConfig_def)

lemma getReposConfig_env_azdo:
  "getReposConfig env_azdo =
     (RepositoryType_AZDO, Some (IAzDORepoConfig (Some ''azdo-token'') (Some ''manifests'')))"
  by (simp add: getReposConfig_def)

lemma getPipelineConfig_unset: "getPipelineConfig (\<lambda>name. None) = (PipelineType_AZDO, None)"
  by (simp add: getPipelineConfig_def)

lemma getReposConfig_env_azdo_without_repo:
  "getReposConfig (env_azdo(REACT_APP_AZDO_MANIFEST_REPO := None)) = (RepositoryType_AZDO, None)"
  by (simp add: getReposConfig_def)

theorem getConfig_iff_both_resolved_witness:
  "(\<exists>config. getConfig env_azdo = Inr config
      \<and> pipelineConfig config =
          IAzDOPipelineConfig (Some ''contoso'') (Some ''fabrikam'') (Some ''azdo-token'')
      \<and> repoConfig config = IAzDORepoConfig (Some ''azdo-token'') (Some ''manifests''))
   \<and> getConfig (\<lambda>name. None) =
       Inl (Error ''Pipeline and/or repository could not be recognized.'')
   \<and> getConfig (env_azdo(REACT_APP_AZDO_MANIFEST_REPO := None)) =
       Inl (Error ''Pipeline and/or repository could not be recognized.'')"
  using getConfig_iff_both_resolved [of env_azdo]
    getConfig_iff_both_resolved [of "\<lambda>name. None"]
    getConfig_iff_both_resolved [of "env_azdo(REACT_APP_AZDO_MANIFEST_REPO := None)"]
  by (simp add: getPipelineConfig_env_azdo getReposConfig_env_azdo getPipelineConfig_unset
        getReposConfig_env_azdo_without_repo)

section \<open>One provider configured\<close>

lemma truthy_iff: "truthy v \<longleftrightarrow> (\<exists>s. v = Some s \<and> s \<noteq> [])"
  by (cases v) simp_all

lemmas config_defs = getConfig_def getPipelineConfig_def getReposConfig_def

lemmas predicate_defs = isAzdo_def isGithubActions_def isGitlab_def

lemma azdo_config:
  assumes "truthy (env REACT_APP_AZDO_ORG)" and "truthy (env REACT_APP_AZDO_PROJECT)"
    and "truthy (env REACT_APP_AZDO_MANIFEST_REPO)"
  shows "(\<exists>config. getConfig env = Inr config
            \<and> pipelineType config = PipelineType_AZDO \<and> repoType config = RepositoryType_AZDO)
         \<and> isAzdo env = Inr True \<and> isGithubActions env = Inr False \<and> isGitlab env = Inr False"
  using assms by (auto simp: predicate_defs config_defs truthy_iff)

lemma github_config:
  assumes "\<not> (truthy (env REACT_APP_AZDO_ORG) \<and> truthy (env REACT_APP_AZDO_PROJECT))"
    and "\<not> truthy (env REACT_APP_AZDO_MANIFEST_REPO)"
    and "truthy (env REACT_APP_GITHUB_TOKEN)"
    and "truthy (env REACT_APP_GITHUB_MANIFEST_REPO)"
    and "truthy (env REACT_APP_GITHUB_HLD_REPO)"
    and "truthy (env REACT_APP_GITHUB_SOURCE_REPO)"
  shows "(\<exists>config. getConfig env = Inr config
            \<and> pipelineType config = PipelineType_GITHUB_ACTIONS
            \<and> repoType config = RepositoryType_GITHUB)
         \<and> isAzdo env = Inr False \<and> isGithubActions env = Inr True \<and> isGitlab env = Inr False"
proof -
  have defined: "env REACT_APP_GITHUB_MANIFEST_REPO \<noteq> None" "env REACT_APP_GITHUB_HLD_REPO \<noteq> None"
    "env REACT_APP_GITHUB_SOURCE_REPO \<noteq> None"
    using assms by (auto simp: truthy_iff)
  show ?thesis
    using assms defined by (simp add: predicate_defs config_defs)
qed

lemma gitlab_config:
  assumes "\<not> (truthy (env REACT_APP_AZDO_ORG) \<and> truthy (env REACT_APP_AZDO_PROJECT))"
    and "\<not> truthy (env REACT_APP_AZDO_MANIFEST_REPO)"
    and "\<not> truthy (env REACT_APP_GITHUB_TOKEN)"
    and "\<not> (truthy (env REACT_APP_GITHUB_MANIFEST_REPO) \<and> truthy (env REACT_APP_GITHUB_HLD_REPO)
            \<and> truthy (env REACT_APP_GITHUB_SOURCE_REPO))"
    and "truthy (env REACT_APP_GITLAB_TOKEN)"
    and "truthy (env REACT_APP_GITLAB_SOURCE_PROJECT_ID)"
    and "truthy (env REACT_APP_GITLAB_HLD_PROJECT_ID)"
    and "truthy (env REACT_APP_GITLAB_MANIFEST_PROJECT_ID)"
  shows "(\<exists>config. getConfig env = Inr config
            \<and> pipelineType config = PipelineType_GITLAB \<and> repoType config = RepositoryType_GITLAB)
         \<and> isAzdo env = Inr False \<and> isGithubActions env = Inr False \<and> isGitlab env = Inr True"
proof -
  have defined: "env REACT_APP_GITLAB_SOURCE_PROJECT_ID \<noteq> None"
    "env REACT_APP_GITLAB_HLD_PROJECT_ID \<noteq> None" "env REACT_APP_GITLAB_MANIFEST_PROJECT_ID \<noteq> None"
    using assms by (auto simp: truthy_iff)
  show ?thesis
    using assms defined by (simp add: predicate_defs config_defs)
qed

text \<open>
  Claim C2. For every environment that satisfies the required variables of exactly one
  provider, for its pipeline and for its repository, while every required group of the
  two other providers is unsatisfied, \<^verbatim>\<open>getConfig\<close> returns a configuration whose
  \<^verbatim>\<open>pipelineType\<close> and \<^verbatim>\<open>repoType\<close> are that provider's, the validity predicate of
  that provider returns true and the two others return false. The required groups are
  the conditions of the two selection functions: organization and project, and the
  manifest repository, for Azure DevOps; the GitHub token, and the three GitHub
  repositories, for GitHub; the GitLab token, and the three project ids with the token,
  for GitLab.
\<close>

theorem single_provider_config:
  "(truthy (env REACT_APP_AZDO_ORG) \<and> truthy (env REACT_APP_AZDO_PROJECT)
      \<and> truthy (env REACT_APP_AZDO_MANIFEST_REPO)
      \<and> \<not> truthy (env REACT_APP_GITHUB_TOKEN)
      \<and> \<not> (truthy (env REACT_APP_GITHUB_MANIFEST_REPO) \<and> truthy (env REACT_APP_GITHUB_HLD_REPO)
            \<and> truthy (env REACT_APP_GITHUB_SOURCE_REPO))
      \<and> \<not> truthy (env REACT_APP_GITLAB_TOKEN)
      \<and> \<not> (truthy (env REACT_APP_GITLAB_SOURCE_PROJECT_ID)
            \<and> truthy (env REACT_APP_GITLAB_HLD_PROJECT_ID)
            \<and> truthy (env REACT_APP_GITLAB_MANIFEST_PROJECT_ID)
            \<and> truthy (env REACT_APP_GITLAB_TOKEN)) \<longrightarrow>
    (\<exists>config. getConfig env = Inr config
       \<and> pipelineType config = PipelineType_AZDO \<and> repoType config = RepositoryType_AZDO)
    \<and> isAzdo env = Inr True \<and> isGithubActions env = Inr False \<and> isGitlab env = Inr False)
   \<and> (truthy (env REACT_APP_GITHUB_TOKEN)
      \<and> truthy (env REACT_APP_GITHUB_MANIFEST_REPO) \<and> truthy (env REACT_APP_GITHUB_HLD_REPO)
      \<and> truthy (env REACT_APP_GITHUB_SOURCE_REPO)
      \<and> \<not> (truthy (env REACT_APP_AZDO_ORG) \<and> truthy (env REACT_APP_AZDO_PROJECT))
      \<and> \<not> truthy (env REACT_APP_AZDO_MANIFEST_REPO)
      \<and> \<not> truthy (env REACT_APP_GITLAB_TOKEN)
      \<and> \<not> (truthy (env REACT_APP_GITLAB_SOURCE_PROJECT_ID)
            \<and> truthy (env REACT_APP_GITLAB_HLD_PROJECT_ID)
            \<and> truthy (env REACT_APP_GITLAB_MANIFEST_PROJECT_ID)
            \<and> truthy (env REACT_APP_GITLAB_TOKEN)) \<longrightarrow>
    (\<exists>config. getConfig env = Inr config
       \<and> pipelineType config = PipelineType_GITHUB_ACTIONS
       \<and> repoType config = RepositoryType_GITHUB)
    \<and> isAzdo env = Inr False \<and> isGithubActions env = Inr True \<and> isGitlab env = Inr False)
   \<and> (truthy (env REACT_APP_GITLAB_TOKEN)
      \<and> truthy (env REACT_APP_GITLAB_SOURCE_PROJECT_ID)
      \<and> truthy (env REACT_APP_GITLAB_HLD_PROJECT_ID)
      \<and> truthy (env REACT_APP_GITLAB_MANIFEST_PROJECT_ID)
      \<and> \<not> (truthy (env REACT_APP_AZDO_ORG) \<and> truthy (env REACT_APP_AZDO_PROJECT))
      \<and> \<not> truthy (env REACT_APP_AZDO_MANIFEST_REPO)
      \<and> \<not> truthy (env REACT_APP_GITHUB_TOKEN)
      \<and> \<not> (truthy (env REACT_APP_GITHUB_MANIFEST_REPO) \<and> truthy (env REACT_APP_GITHUB_HLD_REPO)
            \<and> truthy (env REACT_APP_GITHUB_SOURCE_REPO)) \<longrightarrow>
    (\<exists>config. getConfig env = Inr config
       \<and> pipelineType config = PipelineType_GITLAB \<and> repoType config = RepositoryType_GITLAB)
    \<and> isAzdo env = Inr False \<and> isGithubActions env = Inr False \<and> isGitlab env = Inr True)"
  using azdo_config [of env] github_config [of env] gitlab_config [of env]
  by blast

lemma getConfig_env_azdo:
  "getConfig env_azdo =
     Inr \<lparr> pipelineConfig =
             IAzDOPipelineConfig (Some ''contoso'') (Some ''fabrikam'') (Some ''azdo-token''),
           repoConfig = IAzDORepoConfig (Some ''azdo-token'') (Some ''manifests''),
           storageAccessKey = ''key'', storageAccountName = ''account'',
           storageTableName = ''table'', storagePartitionKey = ''partition'',
           dockerVersion = None, repoType = RepositoryType_AZDO,
           pipelineType = PipelineType_AZDO \<rparr>"
  by (simp add: config_defs)

lemma getConfig_env_github:
  "getConfig env_github =
     Inr \<lparr> pipelineConfig = IGithubActionsConfig (Some ''gh-token''),
           repoConfig =
             IGithubRepoConfig (Some ''gh-token'') (Some ''gh-source'') (Some ''gh-hld'')
               (Some ''gh-manifests''),
           storageAccessKey = ''key'', storageAccountName = ''account'',
           storageTableName = ''table'', storagePartitionKey = ''partition'',
           dockerVersion = None, repoType = RepositoryType_GITHUB,
           pipelineType = PipelineType_GITHUB_ACTIONS \<rparr>"
  by (simp add: config_defs)

lemma getConfig_env_gitlab:
  "getConfig env_gitlab =
     Inr \<lparr> pipelineConfig = IGitlabPipelineConfig (Some ''gl-token''),
           repoConfig =
             IGitlabRepoConfig (Some ''gl-token'') (Some ''101'') (Some ''102'') (Some ''103''),
           storageAccessKey = ''key'', storageAccountName = ''account'',
           storageTableName = ''table'', storagePartitionKey = ''partition'',
           dockerVersion = None, repoType = RepositoryType_GITLAB,
           pipelineType = PipelineType_GITLAB \<rparr>"
  by (simp add: config_defs)

theorem single_provider_config_witness:
  "(\<exists>config. getConfig env_azdo = Inr config
       \<and> pipelineType config = PipelineType_AZDO \<and> repoType config = RepositoryType_AZDO)
   \<and> isAzdo env_azdo = Inr True \<and> isGithubActions env_azdo = Inr False
   \<and> isGitlab env_azdo = Inr False
   \<and> (\<exists>config. getConfig env_github = Inr config
       \<and> pipelineType config = PipelineType_GITHUB_ACTIONS
       \<and> repoType config = RepositoryType_GITHUB)
   \<and> isAzdo env_github = Inr False \<and> isGithubActions env_github = Inr True
   \<and> isGitlab env_github = Inr False
   \<and> (\<exists>config. getConfig env_gitlab = Inr config
       \<and> pipelineType config = PipelineType_GITLAB \<and> repoType config = RepositoryType_GITLAB)
   \<and> isAzdo env_gitlab = Inr False \<and> isGithubActions env_gitlab = Inr False
   \<and> isGitlab env_gitlab = Inr True"
  using single_provider_config [of env_azdo] single_provider_config [of env_github]
    single_provider_config [of env_gitlab]
  by simp

section \<open>Validity of the configuration\<close>

lemma predicates_total:
  assumes "getConfig env = Inr config"
  shows "\<exists>a g l. isAzdo env = Inr a \<and> isGithubActions env = Inr g \<and> isGitlab env = Inr l
           \<and> \<not> (a \<and> g) \<and> \<not> (a \<and> l) \<and> \<not> (g \<and> l)"
  using assms by (auto simp: predicate_defs)

text \<open>
  Claim C5. For every environment in which \<^verbatim>\<open>getConfig\<close> succeeds, \<^verbatim>\<open>isConfigValid\<close>
  returns true exactly when exactly one of \<^verbatim>\<open>isAzdo\<close>, \<^verbatim>\<open>isGithubActions\<close> and
  \<^verbatim>\<open>isGitlab\<close> returns true and the four storage fields (account name, access key,
  table name, partition key) are non-empty strings; it returns a boolean in every such
  environment, and it returns false whenever one of the four storage fields is the
  empty string.
\<close>

theorem isConfigValid_iff:
  assumes "getConfig env = Inr config"
  shows "(isConfigValid env = Inr True \<longleftrightarrow>
            ((isAzdo env = Inr True \<and> isGithubActions env \<noteq> Inr True \<and> isGitlab env \<noteq> Inr True)
             \<or> (isAzdo env \<noteq> Inr True \<and> isGithubActions env = Inr True \<and> isGitlab env \<noteq> Inr True)
             \<or> (isAzdo env \<noteq> Inr True \<and> isGithubActions env \<noteq> Inr True \<and> isGitlab env = Inr True))
            \<and> storageAccountName config \<noteq> [] \<and> storageAccessKey config \<noteq> []
            \<and> storageTableName config \<noteq> [] \<and> storagePartitionKey config \<noteq> [])
         \<and> (isConfigValid env = Inr True \<or> isConfigValid env = Inr False)
         \<and> (storageAccountName config = [] \<or> storageAccessKey config = []
              \<or> storageTableName config = [] \<or> storagePartitionKey config = [] \<longrightarrow>
            isConfigValid env = Inr False)"
proof -
  obtain a g l where p: "isAzdo env = Inr a" "isGithubActions env = Inr g" "isGitlab env = Inr l"
    "\<not> (a \<and> g)" "\<not> (a \<and> l)" "\<not> (g \<and> l)"
    using predicates_total [OF assms] by blast
  have v: "isConfigValid env =
             Inr ((a \<or> g \<or> l) \<and> storageAccountName config \<noteq> [] \<and> storageAccessKey config \<noteq> []
                  \<and> storageTableName config \<noteq> [] \<and> storagePartitionKey config \<noteq> [])"
    using assms p(1-3) by (simp add: isConfigValid_def)
  show ?thesis
    unfolding v using p by auto
qed

theorem isConfigValid_iff_witness:
  "isConfigValid env_azdo = Inr True
   \<and> isAzdo env_azdo = Inr True \<and> isGithubActions env_azdo \<noteq> Inr True
   \<and> isGitlab env_azdo \<noteq> Inr True
   \<and> isConfigValid (env_azdo(REACT_APP_STORAGE_TABLE_NAME \<mapsto> [])) = Inr False
   \<and> isConfigValid (env_azdo(REACT_APP_STORAGE_ACCESS_KEY := None)) = Inr False"
proof -
  have valid: "isAzdo env_azdo = Inr True" "isGithubActions env_azdo = Inr False"
    "isGitlab env_azdo = Inr False"
    by (simp_all add: predicate_defs getConfig_env_azdo)
  have empty_table: "getConfig (env_azdo(REACT_APP_STORAGE_TABLE_NAME \<mapsto> [])) =
     Inr \<lparr> pipelineConfig =
             IAzDOPipelineConfig (Some ''contoso'') (Some ''fabrikam'') (Some ''azdo-token''),
           repoConfig = IAzDORepoConfig (Some ''azdo-token'') (Some ''manifests''),
           storageAccessKey = ''key'', storageAccountName = ''account'',
           storageTableName = [], storagePartitionKey = ''partition'',
           dockerVersion = None, repoType = RepositoryType_AZDO,
           pipelineType = PipelineType_AZDO \<rparr>"
    by (simp add: config_defs)
  have no_key: "getConfig (env_azdo(REACT_APP_STORAGE_ACCESS_KEY := None)) =
     Inr \<lparr> pipelineConfig =
             IAzDOPipelineConfig (Some ''contoso'') (Some ''fabrikam'') (Some ''azdo-token''),
           repoConfig = IAzDORepoConfig (Some ''azdo-token'') (Some ''manifests''),
           storageAccessKey = [], storageAccountName = ''account'',
           storageTableName = ''table'', storagePartitionKey = ''partition'',
           dockerVersion = None, repoType = RepositoryType_AZDO,
           pipelineType = PipelineType_AZDO \<rparr>"
    by (simp add: config_defs)
  show ?thesis
    using isConfigValid_iff [OF getConfig_env_azdo] isConfigValid_iff [OF empty_table]
      isConfigValid_iff [OF no_key] valid
    by simp
qed

section \<open>A pipeline and a repository of different providers\<close>

text \<open>
  Claim C10. There is an environment in which \<^verbatim>\<open>getConfig\<close> succeeds with a mixed
  configuration (the Azure DevOps organization and project set, the Azure DevOps
  manifest repository unset, the three GitHub repositories set, so that \<^verbatim>\<open>pipelineType\<close>
  is \<^verbatim>\<open>AZDO\<close> and \<^verbatim>\<open>repoType\<close> is \<^verbatim>\<open>GITHUB\<close>) and \<^verbatim>\<open>isAzdo\<close> returns true, because the
  read of \<^verbatim>\<open>manifestRepo\<close> through the cast finds the GitHub configuration's field.
  The same holds in every environment of that kind, so the validity predicates do not
  ensure that pipeline and repository belong to one provider.
\<close>

theorem mixed_provider_isAzdo:
  "(\<exists>env config. truthy (env REACT_APP_AZDO_ORG) \<and> truthy (env REACT_APP_AZDO_PROJECT)
       \<and> \<not> truthy (env REACT_APP_AZDO_MANIFEST_REPO)
       \<and> truthy (env REACT_APP_GITHUB_MANIFEST_REPO) \<and> truthy (env REACT_APP_GITHUB_HLD_REPO)
       \<and> truthy (env REACT_APP_GITHUB_SOURCE_REPO)
       \<and> getConfig env = Inr config
       \<and> pipelineType config = PipelineType_AZDO \<and> repoType config = RepositoryType_GITHUB
       \<and> repo_manifestRepo (repoConfig config) \<noteq> None
       \<and> isAzdo env = Inr True)
   \<and> (\<forall>env. truthy (env REACT_APP_AZDO_ORG) \<and> truthy (env REACT_APP_AZDO_PROJECT)
       \<and> \<not> truthy (env REACT_APP_AZDO_MANIFEST_REPO)
       \<and> truthy (env REACT_APP_GITHUB_MANIFEST_REPO) \<and> truthy (env REACT_APP_GITHUB_HLD_REPO)
       \<and> truthy (env REACT_APP_GITHUB_SOURCE_REPO) \<longrightarrow>
       (\<exists>config. getConfig env = Inr config
          \<and> pipelineType config = PipelineType_AZDO \<and> repoType config = RepositoryType_GITHUB
          \<and> repo_manifestRepo (repoConfig config) = env REACT_APP_GITHUB_MANIFEST_REPO)
       \<and> isAzdo env = Inr True \<and> isGithubActions env = Inr False \<and> isGitlab env = Inr False)"
proof (rule conjI)
  have "truthy (env_mixed REACT_APP_AZDO_ORG) \<and> truthy (env_mixed REACT_APP_AZDO_PROJECT)
       \<and> \<not> truthy (env_mixed REACT_APP_AZDO_MANIFEST_REPO)
       \<and> truthy (env_mixed REACT_APP_GITHUB_MANIFEST_REPO)
       \<and> truthy (env_mixed REACT_APP_GITHUB_HLD_REPO)
       \<and> truthy (env_mixed REACT_APP_GITHUB_SOURCE_REPO)
       \<and> getConfig env_mixed =
           Inr \<lparr> pipelineConfig = IAzDOPipelineConfig (Some ''contoso'') (Some ''fabrikam'') None,
                 repoConfig =
                   IGithubRepoConfig None (Some ''gh-source'') (Some ''gh-hld'')
                     (Some ''gh-manifests''),
                 storageAccessKey = [], storageAccountName = [],
                 storageTableName = [], storagePartitionKey = [],
                 dockerVersion = None, repoType = RepositoryType_GITHUB,
                 pipelineType = PipelineType_AZDO \<rparr>
       \<and> isAzdo env_mixed = Inr True"
    by (simp add: predicate_defs config_defs)
  then show "\<exists>env config. truthy (env REACT_APP_AZDO_ORG) \<and> truthy (env REACT_APP_AZDO_PROJECT)
       \<and> \<not> truthy (env REACT_APP_AZDO_MANIFEST_REPO)
       \<and> truthy (env REACT_APP_GITHUB_MANIFEST_REPO) \<and> truthy (env REACT_APP_GITHUB_HLD_REPO)
       \<and> truthy (env REACT_APP_GITHUB_SOURCE_REPO)
       \<and> getConfig env = Inr config
       \<and> pipelineType config = PipelineType_AZDO \<and> repoType config = RepositoryType_GITHUB
       \<and> repo_manifestRepo (repoConfig config) \<noteq> None
       \<and> isAzdo env = Inr True"
    by (intro exI [of _ env_mixed]) simp
next
  show "\<forall>env. truthy (env REACT_APP_AZDO_ORG) \<and> truthy (env REACT_APP_AZDO_PROJECT)
       \<and> \<not> truthy (env REACT_APP_AZDO_MANIFEST_REPO)
       \<and> truthy (env REACT_APP_GITHUB_MANIFEST_REPO) \<and> truthy (env REACT_APP_GITHUB_HLD_REPO)
       \<and> truthy (env REACT_APP_GITHUB_SOURCE_REPO) \<longrightarrow>
       (\<exists>config. getConfig env = Inr config
          \<and> pipelineType config = PipelineType_AZDO \<and> repoType config = RepositoryType_GITHUB
          \<and> repo_manifestRepo (repoConfig config) = env REACT_APP_GITHUB_MANIFEST_REPO)
       \<and> isAzdo env = Inr True \<and> isGithubActions env = Inr False \<and> isGitlab env = Inr False"
  proof (rule allI, rule impI)
    fix env :: env
    assume h: "truthy (env REACT_APP_AZDO_ORG) \<and> truthy (env REACT_APP_AZDO_PROJECT)
       \<and> \<not> truthy (env REACT_APP_AZDO_MANIFEST_REPO)
       \<and> truthy (env REACT_APP_GITHUB_MANIFEST_REPO) \<and> truthy (env REACT_APP_GITHUB_HLD_REPO)
       \<and> truthy (env REACT_APP_GITHUB_SOURCE_REPO)"
    then have defined: "env REACT_APP_AZDO_ORG \<noteq> None" "env REACT_APP_AZDO_PROJECT \<noteq> None"
      "env REACT_APP_GITHUB_MANIFEST_REPO \<noteq> None"
      by (auto simp: truthy_iff)
    show "(\<exists>config. getConfig env = Inr config
          \<and> pipelineType config = PipelineType_AZDO \<and> repoType config = RepositoryType_GITHUB
          \<and> repo_manifestRepo (repoConfig config) = env REACT_APP_GITHUB_MANIFEST_REPO)
       \<and> isAzdo env = Inr True \<and> isGithubActions env = Inr False \<and> isGitlab env = Inr False"
      using h defined by (simp add: predicate_defs config_defs)
  qed
qed

theorem mixed_provider_isAzdo_witness:
  "truthy (env_mixed REACT_APP_AZDO_ORG) \<and> truthy (env_mixed REACT_APP_AZDO_PROJECT)
   \<and> \<not> truthy (env_mixed REACT_APP_AZDO_MANIFEST_REPO)
   \<and> (\<exists>config. getConfig env_mixed = Inr config
        \<and> pipelineType config = PipelineType_AZDO \<and> repoType config = RepositoryType_GITHUB
        \<and> repo_manifestRepo (repoConfig config) = Some ''gh-manifests'')
   \<and> isAzdo env_mixed = Inr True"
  using mixed_provider_isAzdo [THEN conjunct2, THEN spec, of env_mixed] by simp

section \<open>The cache refresh interval\<close>



























section \<open>The author of a deployment\<close>

lemma github_only_simps:
  "github_only ''https://github.com/team/app'' = Some ''https://github.com/team/app''"
  "github_only ''https://github.com/team/hld'' = Some ''https://github.com/team/hld''"
  "github_only ''https://example.org/team/app'' = None"
  by (simp_all add: github_only_def)

lemma selection_deployment_built: "selection github_only deployment_built = (Some ''c1'', Some ''repo'')"
  by (simp add: selection_def deployment_built_def js_or_def)

text \<open>
  Claim C1 says that, whenever the selection yields a commit and a repository,
  \<^verbatim>\<open>fetchAuthor\<close> is called with the configuration's source repository access token
  when present, and otherwise with its pipeline access token. The code reads two
  properties that the configuration object does not have, so the token it passes is
  \<^verbatim>\<open>undefined\<close>. At the Azure DevOps environment, whose repository and pipeline
  configurations both hold the access token \<^verbatim>\<open>azdo-token\<close>, and a deployment whose
  source build carries commit \<^verbatim>\<open>c1\<close> and a repository, \<^verbatim>\<open>get\<close> calls \<^verbatim>\<open>fetchAuthor\<close>
  with that repository, \<^verbatim>\<open>c1\<close> and no token.
\<close>

theorem get_deployment_built_token:
  "(\<exists>config. getConfig env_azdo = Inr config
      \<and> repo_accessToken (repoConfig config) = Some ''azdo-token''
      \<and> pipeline_accessToken (pipelineConfig config) = Some ''azdo-token'')
   \<and> selection github_only deployment_built = (Some ''c1'', Some ''repo'')
   \<and> get env_azdo github_only nobody deployment_built =
       Inr ([FetchAuthor ''repo'' ''c1'' None], None)"
  by (simp add: get_def getConfig_env_azdo selection_deployment_built
        sourceRepoAccessToken_def pipelineAccessToken_def js_or_def nobody_def)

text \<open>The same in general: whatever \<^verbatim>\<open>get\<close> passes to \<^verbatim>\<open>fetchAuthor\<close>, the token is undefined.\<close>

lemma get_token_undefined:
  assumes "get env getRepositoryFromURL fetchAuthor deployment = Inr (effects, author)"
    and "FetchAuthor repo commit accessToken \<in> set effects"
  shows "accessToken = None"
proof -
  obtain config where "getConfig env = Inr config"
    using assms(1) by (cases "getConfig env") (simp_all add: get_def)
  then show ?thesis
    using assms
    by (auto simp: get_def sourceRepoAccessToken_def pipelineAccessToken_def js_or_def
          split: prod.splits option.splits if_splits)
qed

text \<open>
  Claim C8 as stated, for every deployment without a build repository and with a source
  URL, fails: when the resolver does not recognise the source URL, the second fallback
  runs. Here the source build has commit \<^verbatim>\<open>c2\<close>, yet the commit used is \<^verbatim>\<open>h1\<close> of
  the HLD build and the repository comes from the HLD URL.
\<close>

theorem source_url_overridden_counterexample:
  "opt_chain (srcToDockerBuild deployment_unknown_host) repository = None
   \<and> opt_chain (hldToManifestBuild deployment_unknown_host) repository = None
   \<and> truthy (sourceRepo deployment_unknown_host)
   \<and> opt_chain (srcToDockerBuild deployment_unknown_host) sourceVersion = Some ''c2''
   \<and> selection github_only deployment_unknown_host = (Some ''h1'', Some ''https://github.com/team/hld'')
   \<and> fst (selection github_only deployment_unknown_host)
       \<noteq> opt_chain (srcToDockerBuild deployment_unknown_host) sourceVersion
   \<and> get env_azdo github_only nobody deployment_unknown_host =
       Inr ([FetchAuthor ''https://github.com/team/hld'' ''h1'' None], None)"
  by (simp add: get_def getConfig_env_azdo selection_def deployment_unknown_host_def
        deployment_urls_def github_only_simps
        sourceRepoAccessToken_def pipelineAccessToken_def js_or_def nobody_def)

text \<open>
  Claim C8, amended. For every deployment in which neither build carries a repository,
  \<^verbatim>\<open>sourceRepo\<close> is present (defined and not empty) and the resolver returns a
  repository reference for it (or \<^verbatim>\<open>hldRepo\<close> is absent or empty), the repository is
  what the resolver returns for the source URL and the commit is
  \<^verbatim>\<open>srcToDockerBuild.sourceVersion\<close>, not the \<^verbatim>\<open>hldToManifestBuild\<close> fallback. When the
  configuration resolves, the resolver returned a reference and that commit is a
  non-empty string such as \<^verbatim>\<open>c2\<close>, \<^verbatim>\<open>fetchAuthor\<close> is called with the reference and
  that commit.
\<close>

theorem source_url_selection:
  assumes "opt_chain (srcToDockerBuild deployment) repository = None"
    and "opt_chain (hldToManifestBuild deployment) repository = None"
    and "sourceRepo deployment = Some url" and "url \<noteq> []"
    and "getRepositoryFromURL url \<noteq> None \<or> \<not> truthy (hldRepo deployment)"
  shows "selection getRepositoryFromURL deployment =
           (opt_chain (srcToDockerBuild deployment) sourceVersion, getRepositoryFromURL url)
         \<and> (\<forall>config repo commit.
               getConfig env = Inr config \<and> getRepositoryFromURL url = Some repo
               \<and> opt_chain (srcToDockerBuild deployment) sourceVersion = Some commit
               \<and> commit \<noteq> [] \<longrightarrow>
               get env getRepositoryFromURL fetchAuthor deployment =
                 Inr ([FetchAuthor repo commit None], fetchAuthor repo commit None))"
proof -
  have sel: "selection getRepositoryFromURL deployment =
           (opt_chain (srcToDockerBuild deployment) sourceVersion, getRepositoryFromURL url)"
  proof (cases "getRepositoryFromURL url")
    case None
    with assms(5) have "\<not> truthy (hldRepo deployment)"
      by simp
    then show ?thesis
      using assms(1-4) None
      by (cases "hldRepo deployment") (simp_all add: selection_def)
  next
    case (Some repo)
    then show ?thesis
      using assms(1-4) by (simp add: selection_def)
  qed
  show ?thesis
    by (simp add: sel get_def sourceRepoAccessToken_def pipelineAccessToken_def js_or_def)
qed

theorem source_url_selection_witness:
  "selection github_only deployment_urls = (Some ''c2'', Some ''https://github.com/team/app'')
   \<and> get env_azdo github_only nobody deployment_urls =
       Inr ([FetchAuthor ''https://github.com/team/app'' ''c2'' None], None)"
  using source_url_selection [of deployment_urls "''https://github.com/team/app''" github_only
      env_azdo nobody]
  by (simp add: deployment_urls_def github_only_simps getConfig_env_azdo nobody_def)

text \<open>
  Claim C9. For every deployment where \<^verbatim>\<open>sourceRepo\<close> is present and resolves to a
  repository reference, \<^verbatim>\<open>srcToDockerBuild\<close> is absent altogether and no build carries
  a repository, the source URL branch sets the commit to undefined, whatever
  \<^verbatim>\<open>hldToManifestBuild.sourceVersion\<close> is, and \<^verbatim>\<open>get\<close> logs the message and returns
  absent without calling \<^verbatim>\<open>fetchAuthor\<close>. (In an environment whose configuration does
  not resolve, the error of \<^verbatim>\<open>getConfig\<close> is thrown first, and \<^verbatim>\<open>fetchAuthor\<close> is not
  called either.)
\<close>

theorem no_source_build_rejected:
  assumes "srcToDockerBuild deployment = None"
    and "opt_chain (hldToManifestBuild deployment) repository = None"
    and "sourceRepo deployment = Some url" and "url \<noteq> []"
    and "getRepositoryFromURL url = Some repo"
  shows "selection getRepositoryFromURL deployment = (None, Some repo)
         \<and> get env getRepositoryFromURL fetchAuthor deployment =
             (case getConfig env of
                Inl e \<Rightarrow> Inl e
              | Inr config \<Rightarrow> Inr ([ConsoleLog ''Repository could not be recognized''], None))"
proof -
  have sel: "selection getRepositoryFromURL deployment = (None, Some repo)"
    using assms by (simp add: selection_def)
  show ?thesis
    by (cases "getConfig env") (simp_all add: sel get_def)
qed

theorem no_source_build_rejected_witness:
  "opt_chain (hldToManifestBuild deployment_no_source_build) sourceVersion = Some ''h1''
   \<and> selection github_only deployment_no_source_build = (None, Some ''https://github.com/team/app'')
   \<and> get env_azdo github_only nobody deployment_no_source_build =
       Inr ([ConsoleLog ''Repository could not be recognized''], None)"
  using no_source_build_rejected [of deployment_no_source_build "''https://github.com/team/app''"
      github_only "''https://github.com/team/app''" env_azdo nobody]
  by (simp add: deployment_no_source_build_def github_only_simps getConfig_env_azdo)

end
